theory Spec2Isabelle
  imports Main "HOL-Library.Word"
begin

section \<open>JavaScript values, objects and the platform\<close>

text \<open>
  The four variants of the request helper build plain JavaScript objects with the spread
  operator and hand them to the platform's \<^verbatim>\<open>fetch\<close>. An object is a finite map from
  property names to values; a property that is present with the value \<^verbatim>\<open>undefined\<close> is
  different from an absent one (the spread copies it), so \<open>Undefined\<close> is a value.
  \<open>Rec\<close> is a \<^verbatim>\<open>Record<string, string>\<close> (the type the sources give to \<^verbatim>\<open>headers\<close>),
  \<open>Signal c\<close> is the \<^verbatim>\<open>signal\<close> of the abort controller number \<open>c\<close>.
\<close>

datatype jsval =
    Undefined
  | Null
  | Bool bool
  | Num int
  | Str string
  | Rec "string \<rightharpoonup> string"
  | Signal nat

type_synonym jsobj = "string \<rightharpoonup> jsval"

text \<open>The values \<^verbatim>\<open>JSON.parse\<close> produces; an object is the list of its own properties.\<close>

datatype jsonval =
    JNull
  | JBool bool
  | JNum int
  | JStr string
  | JArr "jsonval list"
  | JObj "(string \<times> jsonval) list"

text \<open>Errors the platform itself raises: a failed or aborted \<^verbatim>\<open>fetch\<close>, a body that does
  not decode, a property read on \<^verbatim>\<open>null\<close>, a value \<^verbatim>\<open>JSON.stringify\<close> rejects.\<close>

datatype platform_error = TypeError | SyntaxError | AbortError

type_synonym byte = "8 word"

datatype blob = Blob "byte list"

text \<open>
  A \<^verbatim>\<open>Response\<close> as the wrapper sees it: the status indicator \<^verbatim>\<open>ok\<close> and the outcome of
  each body-decoding method (each call in the sources decodes the body at most once).
\<close>

record response =
  resp_ok :: bool
  resp_json :: "platform_error + jsonval"
  resp_text :: "platform_error + string"
  resp_blob :: "platform_error + blob"
  resp_arrayBuffer :: "platform_error + byte list"

text \<open>
  What a call can raise. \<open>HttpError m c\<close> is \<^verbatim>\<open>new Error(m, { cause: { response } })\<close>
  (\<open>c = None\<close> in the variants that attach no cause), with \<open>m\<close> the argument given to the
  constructor; \<open>UnsupportedResponseType v\<close> is
  \<^verbatim>\<open>new Error(`Unsupported response type: ${v}`)\<close>; \<open>Thrown e\<close> is a platform error passing
  through the wrapper.
\<close>

datatype exn =
    HttpError jsonval "response option"
  | UnsupportedResponseType jsval
  | Thrown platform_error

text \<open>What a call can return: the body in the representation that was decoded.\<close>

datatype decoded =
    Json jsonval
  | Text string
  | BlobBody blob
  | ArrayBuffer "byte list"

text \<open>The transport: \<^verbatim>\<open>fetch(url, init)\<close> resolves with a response or rejects.\<close>

type_synonym transport = "string \<Rightarrow> jsobj \<Rightarrow> platform_error + response"

text \<open>
  The effects of a call: the calls issued to the transport, in order, the abort
  controllers created so far, and the timers set so far. A timer aborts a controller
  after a delay unless it has been cleared.
\<close>

datatype timer = Armed nat jsval | Cleared

record world =
  fetch_calls :: "(string \<times> jsobj) list"
  controllers :: nat
  timers :: "timer list"

definition new_AbortController :: "world \<Rightarrow> nat \<times> world" where
  "new_AbortController w = (controllers w, w\<lparr>controllers := Suc (controllers w)\<rparr>)"

definition setTimeout :: "nat \<Rightarrow> jsval \<Rightarrow> world \<Rightarrow> nat \<times> world" where
  "setTimeout controller delay w = (length (timers w), w\<lparr>timers := timers w @ [Armed controller delay]\<rparr>)"

definition clearTimeout :: "nat \<Rightarrow> world \<Rightarrow> world" where
  "clearTimeout timeoutId w = w\<lparr>timers := (timers w)[timeoutId := Cleared]\<rparr>"

definition call_fetch :: "transport \<Rightarrow> string \<Rightarrow> jsobj \<Rightarrow> world \<Rightarrow> (platform_error + response) \<times> world" where
  "call_fetch fetch url init w = (fetch url init, w\<lparr>fetch_calls := fetch_calls w @ [(url, init)]\<rparr>)"

subsection \<open>Operators of the language\<close>

text \<open>Truthiness, as \<^verbatim>\<open>||\<close> and \<^verbatim>\<open>? :\<close> test it.\<close>

fun truthy :: "jsval \<Rightarrow> bool" where
  "truthy Undefined = False"
| "truthy Null = False"
| "truthy (Bool b) = b"
| "truthy (Num n) = (n \<noteq> 0)"
| "truthy (Str s) = (s \<noteq> [])"
| "truthy (Rec m) = True"
| "truthy (Signal c) = True"

fun json_truthy :: "jsonval \<Rightarrow> bool" where
  "json_truthy JNull = False"
| "json_truthy (JBool b) = b"
| "json_truthy (JNum n) = (n \<noteq> 0)"
| "json_truthy (JStr s) = (s \<noteq> [])"
| "json_truthy (JArr xs) = True"
| "json_truthy (JObj kvs) = True"

text \<open>
  A property of an object read with a default, as in \<^verbatim>\<open>const { timeout = 5000 } = options\<close>:
  the default applies when the property is absent or \<^verbatim>\<open>undefined\<close>.
\<close>

definition with_default :: "jsval option \<Rightarrow> jsval \<Rightarrow> jsval" where
  "with_default p d = (case p of None \<Rightarrow> d | Some Undefined \<Rightarrow> d | Some v \<Rightarrow> v)"

text \<open>The rest of a destructuring, \<^verbatim>\<open>const { k, ...rest } = options\<close>.\<close>

definition rest_without :: "string \<Rightarrow> jsobj \<Rightarrow> jsobj" where
  "rest_without k options = options |` (- {k})"

text \<open>
  \<^verbatim>\<open>error.message\<close> on a decoded body: reading a property of \<^verbatim>\<open>null\<close> raises a
  \<^verbatim>\<open>TypeError\<close>; an object gives its property or \<^verbatim>\<open>undefined\<close> (\<open>None\<close>); any other value
  has no such property.
\<close>

fun get_message :: "jsonval \<Rightarrow> platform_error + jsonval option" where
  "get_message JNull = Inl TypeError"
| "get_message (JObj kvs) = Inr (map_of kvs ''message'')"
| "get_message v = Inr None"

text \<open>\<^verbatim>\<open>m || fallback\<close> for a property that was read.\<close>

definition or_else :: "jsonval option \<Rightarrow> string \<Rightarrow> jsonval" where
  "or_else m fallback = (case m of None \<Rightarrow> JStr fallback | Some v \<Rightarrow> if json_truthy v then v else JStr fallback)"

text \<open>
  \<^verbatim>\<open>{ "Content-Type": "application/json", ...fetchOptions.headers }\<close>: the properties of the
  caller's headers record are copied over the default; spreading \<^verbatim>\<open>undefined\<close> copies
  nothing. The sources type \<^verbatim>\<open>headers\<close> as a record of strings or \<^verbatim>\<open>undefined\<close>.
\<close>

definition merged_headers :: "jsval option \<Rightarrow> jsval" where
  "merged_headers h =
     Rec ([''Content-Type'' \<mapsto> ''application/json''] ++ (case h of Some (Rec m) \<Rightarrow> m | _ \<Rightarrow> Map.empty))"

text \<open>\<^verbatim>\<open>v || d\<close> for a property of the options.\<close>

definition js_or :: "jsval option \<Rightarrow> jsval \<Rightarrow> jsval" where
  "js_or p d = (case p of None \<Rightarrow> d | Some v \<Rightarrow> if truthy v then v else d)"

section \<open>src/lib/fetchy.ts: the instance with a timeout\<close>

definition Fetchy_fallback :: string where
  "Fetchy_fallback = ''An error occurred while fetching the data.''"

text \<open>The object literal given to \<^verbatim>\<open>fetch\<close>: the later spread overwrites what is before it.\<close>

definition Fetchy_init :: "nat \<Rightarrow> jsobj \<Rightarrow> jsobj" where
  "Fetchy_init controller fetchOptions =
     [''headers'' \<mapsto> merged_headers (fetchOptions ''headers''), ''signal'' \<mapsto> Signal controller]
       ++ fetchOptions"

text \<open>The body of the \<^verbatim>\<open>try\<close> block once \<^verbatim>\<open>fetch\<close> has settled.\<close>

definition Fetchy_settle :: "platform_error + response \<Rightarrow> exn + jsonval" where
  "Fetchy_settle res =
     (case res of
        Inl e \<Rightarrow> Inl (Thrown e)
      | Inr response \<Rightarrow>
          if \<not> resp_ok response then
            (case resp_json response of
               Inl e \<Rightarrow> Inl (Thrown e)
             | Inr error \<Rightarrow>
                 (case get_message error of
                    Inl e \<Rightarrow> Inl (Thrown e)
                  | Inr m \<Rightarrow> Inl (HttpError (or_else m Fetchy_fallback) (Some response))))
          else
            (case resp_json response of
               Inl e \<Rightarrow> Inl (Thrown e)
             | Inr v \<Rightarrow> Inr v))"

definition Fetchy_request :: "transport \<Rightarrow> string \<Rightarrow> jsobj \<Rightarrow> world \<Rightarrow> (exn + jsonval) \<times> world" where
  "Fetchy_request fetch url options w0 =
     (let timeout = with_default (options ''timeout'') (Num 5000);
          fetchOptions = rest_without ''timeout'' options;
          (controller, w1) = new_AbortController w0;
          (timeoutId, w2) = setTimeout controller timeout w1;
          (res, w3) = call_fetch fetch url (Fetchy_init controller fetchOptions) w2
      in (Fetchy_settle res, clearTimeout timeoutId w3))"

definition Fetchy_get :: "transport \<Rightarrow> string \<Rightarrow> jsobj \<Rightarrow> world \<Rightarrow> (exn + jsonval) \<times> world" where
  "Fetchy_get fetch url options w =
     Fetchy_request fetch url (options ++ [''method'' \<mapsto> Str ''GET'']) w"

text \<open>
  \<^verbatim>\<open>JSON.stringify\<close> is the platform's serialiser and a parameter here: it gives the JSON
  text, \<^verbatim>\<open>undefined\<close> for a value with no JSON form, or raises (a cyclic value).
\<close>

definition Fetchy_post ::
  "('b \<Rightarrow> platform_error + jsval) \<Rightarrow> transport \<Rightarrow> string \<Rightarrow> 'b \<Rightarrow> jsobj \<Rightarrow> world \<Rightarrow> (exn + jsonval) \<times> world" where
  "Fetchy_post stringify fetch url body options w =
     (case stringify body of
        Inl e \<Rightarrow> (Inl (Thrown e), w)
      | Inr text \<Rightarrow>
          Fetchy_request fetch url (options ++ [''method'' \<mapsto> Str ''POST'', ''body'' \<mapsto> text]) w)"

definition Fetchy_put ::
  "('b \<Rightarrow> platform_error + jsval) \<Rightarrow> transport \<Rightarrow> string \<Rightarrow> 'b \<Rightarrow> jsobj \<Rightarrow> world \<Rightarrow> (exn + jsonval) \<times> world" where
  "Fetchy_put stringify fetch url body options w =
     (case stringify body of
        Inl e \<Rightarrow> (Inl (Thrown e), w)
      | Inr text \<Rightarrow>
          Fetchy_request fetch url (options ++ [''method'' \<mapsto> Str ''PUT'', ''body'' \<mapsto> text]) w)"

definition Fetchy_delete :: "transport \<Rightarrow> string \<Rightarrow> jsobj \<Rightarrow> world \<Rightarrow> (exn + jsonval) \<times> world" where
  "Fetchy_delete fetch url options w =
     Fetchy_request fetch url (options ++ [''method'' \<mapsto> Str ''DELETE'']) w"

section \<open>The static class with the \<^verbatim>\<open>cache\<close> option\<close>

text \<open>The first of the variants kept beside the library file: \<^verbatim>\<open>class fetchy\<close> with static
  methods, an option \<^verbatim>\<open>cache?: "no-cache" | "default"\<close>, no timeout and no cause.\<close>

definition fetchy_cache_fallback :: string where
  "fetchy_cache_fallback = ''An error occurred''"

definition fetchy_cache_init :: "jsobj \<Rightarrow> jsobj" where
  "fetchy_cache_init options =
     (let cache = options ''cache'';
          fetchOptions = rest_without ''cache'' options
      in [''headers'' \<mapsto> merged_headers (fetchOptions ''headers'')]
           ++ (if cache = Some (Str ''no-cache'') then [''cache'' \<mapsto> Str ''no-cache''] else Map.empty)
           ++ fetchOptions)"

definition fetchy_cache_settle :: "platform_error + response \<Rightarrow> exn + jsonval" where
  "fetchy_cache_settle res =
     (case res of
        Inl e \<Rightarrow> Inl (Thrown e)
      | Inr response \<Rightarrow>
          if \<not> resp_ok response then
            (case resp_json response of
               Inl e \<Rightarrow> Inl (Thrown e)
             | Inr error \<Rightarrow>
                 (case get_message error of
                    Inl e \<Rightarrow> Inl (Thrown e)
                  | Inr m \<Rightarrow> Inl (HttpError (or_else m fetchy_cache_fallback) None)))
          else
            (case resp_json response of
               Inl e \<Rightarrow> Inl (Thrown e)
             | Inr v \<Rightarrow> Inr v))"

definition fetchy_cache_request :: "transport \<Rightarrow> string \<Rightarrow> jsobj \<Rightarrow> world \<Rightarrow> (exn + jsonval) \<times> world" where
  "fetchy_cache_request fetch url options w0 =
     (let (res, w1) = call_fetch fetch url (fetchy_cache_init options) w0
      in (fetchy_cache_settle res, w1))"

section \<open>The instance with \<^verbatim>\<open>responseType\<close> and a timeout\<close>

text \<open>The second variant: \<^verbatim>\<open>class Fetchy\<close> with \<^verbatim>\<open>parseResponse\<close>, exported as a callable
  object.\<close>

definition Fetchy_rt_parseResponse :: "response \<Rightarrow> jsobj \<Rightarrow> exn + decoded" where
  "Fetchy_rt_parseResponse response options =
     (let responseType = js_or (options ''responseType'') (Str ''json'')
      in if responseType = Str ''json'' then
           (case resp_json response of Inl e \<Rightarrow> Inl (Thrown e) | Inr v \<Rightarrow> Inr (Json v))
         else if responseType = Str ''text'' then
           (case resp_text response of Inl e \<Rightarrow> Inl (Thrown e) | Inr s \<Rightarrow> Inr (Text s))
         else if responseType = Str ''blob'' then
           (case resp_blob response of Inl e \<Rightarrow> Inl (Thrown e) | Inr b \<Rightarrow> Inr (BlobBody b))
         else if responseType = Str ''arrayBuffer'' then
           (case resp_arrayBuffer response of Inl e \<Rightarrow> Inl (Thrown e) | Inr bs \<Rightarrow> Inr (ArrayBuffer bs))
         else Inl (UnsupportedResponseType responseType))"

definition Fetchy_rt_init :: "nat \<Rightarrow> jsobj \<Rightarrow> jsobj" where
  "Fetchy_rt_init controller fetchOptions =
     [''headers'' \<mapsto> merged_headers (fetchOptions ''headers''), ''signal'' \<mapsto> Signal controller]
       ++ fetchOptions"

definition Fetchy_rt_settle :: "jsobj \<Rightarrow> platform_error + response \<Rightarrow> exn + decoded" where
  "Fetchy_rt_settle options res =
     (case res of
        Inl e \<Rightarrow> Inl (Thrown e)
      | Inr response \<Rightarrow>
          if \<not> resp_ok response then
            (if options ''responseType'' = Some (Str ''json'') then
               (case resp_json response of
                  Inl e \<Rightarrow> Inl (Thrown e)
                | Inr error \<Rightarrow>
                    (case get_message error of
                       Inl e \<Rightarrow> Inl (Thrown e)
                     | Inr m \<Rightarrow> Inl (HttpError (or_else m Fetchy_fallback) (Some response))))
             else Inl (HttpError (JStr Fetchy_fallback) (Some response)))
          else Fetchy_rt_parseResponse response options)"

definition Fetchy_rt_request :: "transport \<Rightarrow> string \<Rightarrow> jsobj \<Rightarrow> world \<Rightarrow> (exn + decoded) \<times> world" where
  "Fetchy_rt_request fetch url options w0 =
     (let timeout = with_default (options ''timeout'') (Num 5000);
          fetchOptions = rest_without ''timeout'' options;
          (controller, w1) = new_AbortController w0;
          (timeoutId, w2) = setTimeout controller timeout w1;
          (res, w3) = call_fetch fetch url (Fetchy_rt_init controller fetchOptions) w2
      in (Fetchy_rt_settle options res, clearTimeout timeoutId w3))"

section \<open>The static class with the \<^verbatim>\<open>shouldCache\<close> option\<close>

text \<open>The third variant: \<^verbatim>\<open>class Fetchy\<close> with static methods and \<^verbatim>\<open>shouldCache?: boolean\<close>.\<close>

definition Fetchy_sc_init :: "jsobj \<Rightarrow> jsobj" where
  "Fetchy_sc_init options =
     (let shouldCache = with_default (options ''shouldCache'') (Bool True);
          fetchOptions = rest_without ''shouldCache'' options
      in [''headers'' \<mapsto> merged_headers (fetchOptions ''headers'')]
           ++ (if truthy shouldCache then Map.empty else [''cache'' \<mapsto> Str ''no-cache''])
           ++ fetchOptions)"

definition Fetchy_sc_settle :: "platform_error + response \<Rightarrow> exn + jsonval" where
  "Fetchy_sc_settle res =
     (case res of
        Inl e \<Rightarrow> Inl (Thrown e)
      | Inr response \<Rightarrow>
          if \<not> resp_ok response then
            (case resp_json response of
               Inl e \<Rightarrow> Inl (Thrown e)
             | Inr error \<Rightarrow>
                 (case get_message error of
                    Inl e \<Rightarrow> Inl (Thrown e)
                  | Inr m \<Rightarrow> Inl (HttpError (or_else m Fetchy_fallback) None)))
          else
            (case resp_json response of
               Inl e \<Rightarrow> Inl (Thrown e)
             | Inr v \<Rightarrow> Inr v))"

definition Fetchy_sc_request :: "transport \<Rightarrow> string \<Rightarrow> jsobj \<Rightarrow> world \<Rightarrow> (exn + jsonval) \<times> world" where
  "Fetchy_sc_request fetch url options w0 =
     (let (res, w1) = call_fetch fetch url (Fetchy_sc_init options) w0
      in (Fetchy_sc_settle res, w1))"

definition Fetchy_sc_get :: "transport \<Rightarrow> string \<Rightarrow> jsobj \<Rightarrow> world \<Rightarrow> (exn + jsonval) \<times> world" where
  "Fetchy_sc_get fetch url options w =
     Fetchy_sc_request fetch url (options ++ [''method'' \<mapsto> Str ''GET'']) w"

definition Fetchy_sc_post ::
  "('b \<Rightarrow> platform_error + jsval) \<Rightarrow> transport \<Rightarrow> string \<Rightarrow> 'b \<Rightarrow> jsobj \<Rightarrow> world \<Rightarrow> (exn + jsonval) \<times> world" where
  "Fetchy_sc_post stringify fetch url body options w =
     (case stringify body of
        Inl e \<Rightarrow> (Inl (Thrown e), w)
      | Inr text \<Rightarrow>
          Fetchy_sc_request fetch url (options ++ [''method'' \<mapsto> Str ''POST'', ''body'' \<mapsto> text]) w)"

definition Fetchy_sc_put ::
  "('b \<Rightarrow> platform_error + jsval) \<Rightarrow> transport \<Rightarrow> string \<Rightarrow> 'b \<Rightarrow> jsobj \<Rightarrow> world \<Rightarrow> (exn + jsonval) \<times> world" where
  "Fetchy_sc_put stringify fetch url body options w =
     (case stringify body of
        Inl e \<Rightarrow> (Inl (Thrown e), w)
      | Inr text \<Rightarrow>
          Fetchy_sc_request fetch url (options ++ [''method'' \<mapsto> Str ''PUT'', ''body'' \<mapsto> text]) w)"

definition Fetchy_sc_delete :: "transport \<Rightarrow> string \<Rightarrow> jsobj \<Rightarrow> world \<Rightarrow> (exn + jsonval) \<times> world" where
  "Fetchy_sc_delete fetch url options w =
     Fetchy_sc_request fetch url (options ++ [''method'' \<mapsto> Str ''DELETE'']) w"

section \<open>Observations and concrete inputs\<close>

text \<open>The header \<open>k\<close> among the headers of an object given to the transport.\<close>

definition init_header :: "jsobj \<Rightarrow> string \<Rightarrow> string option" where
  "init_header init k = (case init ''headers'' of Some (Rec m) \<Rightarrow> m k | _ \<Rightarrow> None)"

text \<open>A world in which nothing has happened yet.\<close>

definition w0 :: world where
  "w0 = \<lparr>fetch_calls = [], controllers = 0, timers = []\<rparr>"

text \<open>A transport that settles every call in the same way.\<close>

definition respond :: "platform_error + response \<Rightarrow> transport" where
  "respond res url init = res"

text \<open>Status 204 with an empty body: \<^verbatim>\<open>json()\<close> rejects on it.\<close>

definition resp_no_content :: response where
  "resp_no_content = \<lparr>resp_ok = True, resp_json = Inl SyntaxError, resp_text = Inr [],
     resp_blob = Inr (Blob []), resp_arrayBuffer = Inr []\<rparr>"

definition user_json :: jsonval where
  "user_json = JObj [(''id'', JNum 1), (''name'', JStr ''A'')]"

definition user_bytes :: "byte list" where
  "user_bytes = [0x7B, 0x22, 0x69, 0x64, 0x22, 0x3A, 0x31, 0x2C, 0x22, 0x6E, 0x61, 0x6D, 0x65,
     0x22, 0x3A, 0x22, 0x41, 0x22, 0x7D]"

text \<open>Status 200 with the body \<^verbatim>\<open>{"id":1,"name":"A"}\<close>: \<open>user_text\<close> as text, \<open>user_bytes\<close>
  as bytes, \<open>user_json\<close> once parsed.\<close>

definition user_text :: string where
  \<open>user_text = ''{"id":1,"name":"A"}''\<close>

definition resp_user :: response where
  \<open>resp_user = \<lparr>resp_ok = True,
     resp_json = Inr user_json,
     resp_text = Inr user_text,
     resp_blob = Inr (Blob user_bytes), resp_arrayBuffer = Inr user_bytes\<rparr>\<close>

text \<open>Status 404 with the body \<^verbatim>\<open>{"message":"not found"}\<close>.\<close>

definition resp_not_found :: response where
  \<open>resp_not_found = \<lparr>resp_ok = False,
     resp_json = Inr (JObj [(''message'', JStr ''not found'')]),
     resp_text = Inr ''{"message":"not found"}'',
     resp_blob = Inr (Blob []), resp_arrayBuffer = Inr []\<rparr>\<close>

text \<open>Status 400 with the body \<^verbatim>\<open>{"message":""}\<close>.\<close>

definition resp_empty_message :: response where
  \<open>resp_empty_message = \<lparr>resp_ok = False,
     resp_json = Inr (JObj [(''message'', JStr [])]),
     resp_text = Inr ''{"message":""}'',
     resp_blob = Inr (Blob []), resp_arrayBuffer = Inr []\<rparr>\<close>



text \<open>The request body \<^verbatim>\<open>{"name":"B"}\<close> of the examples and \<^verbatim>\<open>JSON.stringify\<close> at that
  value; the examples serialise no other value.\<close>

definition body_B :: jsonval where
  "body_B = JObj [(''name'', JStr ''B'')]"

definition text_B :: string where
  \<open>text_B = ''{"name":"B"}''\<close>

definition stringify_B :: "jsonval \<Rightarrow> platform_error + jsval" where
  "stringify_B b = (if b = body_B then Inr (Str text_B) else Inr Undefined)"

text \<open>
  The state in which \<^verbatim>\<open>request\<close> calls \<^verbatim>\<open>fetch\<close> in the two variants with a timeout: the
  controller it has created, the identifier of the timer it has set, and the world with
  that timer armed (the lines before the \<^verbatim>\<open>try\<close> block).
\<close>

definition Fetchy_armed :: "jsobj \<Rightarrow> world \<Rightarrow> nat \<times> nat \<times> world" where
  "Fetchy_armed options w =
     (let timeout = with_default (options ''timeout'') (Num 5000);
          (controller, w1) = new_AbortController w;
          (timeoutId, w2) = setTimeout controller timeout w1
      in (controller, timeoutId, w2))"

text \<open>A world in which the caller has created one abort controller of its own, number 0.\<close>

definition w_caller :: world where
  "w_caller = \<lparr>fetch_calls = [], controllers = 1, timers = []\<rparr>"

section \<open>The calls issued to the transport\<close>

lemma Fetchy_request_calls:
  "fetch_calls (snd (Fetchy_request fetch url options w)) =
     fetch_calls w @ [(url, Fetchy_init (controllers w) (rest_without ''timeout'' options))]"
  by (simp add: Fetchy_request_def Let_def new_AbortController_def setTimeout_def
      call_fetch_def clearTimeout_def)

lemma Fetchy_rt_request_calls:
  "fetch_calls (snd (Fetchy_rt_request fetch url options w)) =
     fetch_calls w @ [(url, Fetchy_rt_init (controllers w) (rest_without ''timeout'' options))]"
  by (simp add: Fetchy_rt_request_def Let_def new_AbortController_def setTimeout_def
      call_fetch_def clearTimeout_def)

lemma fetchy_cache_request_calls:
  "fetch_calls (snd (fetchy_cache_request fetch url options w)) =
     fetch_calls w @ [(url, fetchy_cache_init options)]"
  by (simp add: fetchy_cache_request_def call_fetch_def)

lemma Fetchy_sc_request_calls:
  "fetch_calls (snd (Fetchy_sc_request fetch url options w)) =
     fetch_calls w @ [(url, Fetchy_sc_init options)]"
  by (simp add: Fetchy_sc_request_def call_fetch_def)

lemma rest_without_apply: "rest_without k options x = (if x = k then None else options x)"
  by (simp add: rest_without_def restrict_map_def)

section \<open>What a call returns and what it leaves behind\<close>

lemma Fetchy_request_result:
  "fst (Fetchy_request fetch url options w) =
     Fetchy_settle (fetch url (Fetchy_init (controllers w) (rest_without ''timeout'' options)))"
  by (simp add: Fetchy_request_def Let_def new_AbortController_def setTimeout_def
      call_fetch_def clearTimeout_def)

lemma Fetchy_rt_request_result:
  "fst (Fetchy_rt_request fetch url options w) =
     Fetchy_rt_settle options
       (fetch url (Fetchy_rt_init (controllers w) (rest_without ''timeout'' options)))"
  by (simp add: Fetchy_rt_request_def Let_def new_AbortController_def setTimeout_def
      call_fetch_def clearTimeout_def)

text \<open>The \<^verbatim>\<open>finally\<close> block: whatever the outcome, the timer the call has set is cleared
  when the call leaves the \<^verbatim>\<open>try\<close> block, and no other timer is touched.\<close>

lemma Fetchy_request_timers:
  "timers (snd (Fetchy_request fetch url options w)) = timers w @ [Cleared]"
  by (simp add: Fetchy_request_def Let_def new_AbortController_def setTimeout_def
      call_fetch_def clearTimeout_def)

lemma Fetchy_rt_request_timers:
  "timers (snd (Fetchy_rt_request fetch url options w)) = timers w @ [Cleared]"
  by (simp add: Fetchy_rt_request_def Let_def new_AbortController_def setTimeout_def
      call_fetch_def clearTimeout_def)

text \<open>The spread of the caller's options comes last in the object literal, so a
  \<^verbatim>\<open>headers\<close> or \<^verbatim>\<open>signal\<close> property of the caller replaces the one the wrapper wrote.\<close>

lemma Fetchy_init_headers:
  "Fetchy_init c fetchOptions ''headers'' =
     (case fetchOptions ''headers'' of None \<Rightarrow> Some (merged_headers None) | Some h \<Rightarrow> Some h)"
  by (simp add: Fetchy_init_def map_add_def split: option.splits)

lemma Fetchy_init_signal:
  "Fetchy_init c fetchOptions ''signal'' =
     (case fetchOptions ''signal'' of None \<Rightarrow> Some (Signal c) | Some s \<Rightarrow> Some s)"
  by (simp add: Fetchy_init_def map_add_def split: option.splits)

section \<open>Default headers\<close>

text \<open>
  Claim C1: the headers passed to the transport are the caller's headers merged over the
  default \<^verbatim>\<open>Content-Type: application/json\<close>, so that headers which do not redefine
  \<^verbatim>\<open>Content-Type\<close> still travel with it. The code computes that merge and then overwrites
  it: for the options \<^verbatim>\<open>{ headers: { Authorization: "Bearer t" } }\<close> the library file and
  the static class with \<^verbatim>\<open>cache\<close> both issue one call whose \<^verbatim>\<open>headers\<close> are the caller's
  record alone, without \<^verbatim>\<open>Content-Type\<close>.
\<close>

theorem C1_caller_headers_replace_default:
  "(\<exists>init. fetch_calls (snd (Fetchy_request fetch url
                [''headers'' \<mapsto> Rec [''Authorization'' \<mapsto> ''Bearer t'']] w))
        = fetch_calls w @ [(url, init)]
      \<and> init ''headers'' = Some (Rec [''Authorization'' \<mapsto> ''Bearer t''])
      \<and> init_header init ''Content-Type'' = None)
   \<and> (\<exists>init. fetch_calls (snd (fetchy_cache_request fetch url
                [''headers'' \<mapsto> Rec [''Authorization'' \<mapsto> ''Bearer t'']] w))
        = fetch_calls w @ [(url, init)]
      \<and> init ''headers'' = Some (Rec [''Authorization'' \<mapsto> ''Bearer t''])
      \<and> init_header init ''Content-Type'' = None)"
  by (simp add: Fetchy_request_calls fetchy_cache_request_calls Fetchy_init_def
      fetchy_cache_init_def rest_without_apply init_header_def)

section \<open>Status and result\<close>

text \<open>
  Claim C2, as amended: when the transport returns a response, the call of the library
  file raises if the status is not a success; on a success status it returns the body
  decoded as JSON when the body decodes, and raises the decoder's error when it does not.
\<close>

theorem C2_raises_or_decodes:
  assumes "fetch url (Fetchy_init (controllers w) (rest_without ''timeout'' options)) = Inr r"
  shows "(\<not> resp_ok r \<longrightarrow> (\<exists>e. fst (Fetchy_request fetch url options w) = Inl e))
       \<and> (\<forall>v. resp_ok r \<and> resp_json r = Inr v \<longrightarrow> fst (Fetchy_request fetch url options w) = Inr v)
       \<and> (\<forall>e. resp_ok r \<and> resp_json r = Inl e \<longrightarrow>
             fst (Fetchy_request fetch url options w) = Inl (Thrown e))"
  using assms by (auto simp add: Fetchy_request_result Fetchy_settle_def split: sum.splits)

text \<open>The theorem at a 404 with a JSON body and at a 200 with a JSON body.\<close>

theorem C2_raises_or_decodes_witness:
  "respond (Inr resp_not_found) ''/missing''
       (Fetchy_init (controllers w0) (rest_without ''timeout'' Map.empty)) = Inr resp_not_found
   \<and> \<not> resp_ok resp_not_found
   \<and> (\<exists>e. fst (Fetchy_request (respond (Inr resp_not_found)) ''/missing'' Map.empty w0) = Inl e)
   \<and> respond (Inr resp_user) ''/user/1''
       (Fetchy_init (controllers w0) (rest_without ''timeout'' Map.empty)) = Inr resp_user
   \<and> resp_ok resp_user \<and> resp_json resp_user = Inr user_json
   \<and> fst (Fetchy_request (respond (Inr resp_user)) ''/user/1'' Map.empty w0) = Inr user_json"
proof -
  have h1: "respond (Inr resp_not_found) ''/missing''
      (Fetchy_init (controllers w0) (rest_without ''timeout'' Map.empty)) = Inr resp_not_found"
    by (simp add: respond_def)
  have h2: "respond (Inr resp_user) ''/user/1''
      (Fetchy_init (controllers w0) (rest_without ''timeout'' Map.empty)) = Inr resp_user"
    by (simp add: respond_def)
  have k1: "\<not> resp_ok resp_not_found" by (simp add: resp_not_found_def)
  have k2: "resp_ok resp_user \<and> resp_json resp_user = Inr user_json" by (simp add: resp_user_def)
  show ?thesis
    using h1 h2 k1 k2
      C2_raises_or_decodes [of "respond (Inr resp_not_found)" "''/missing''" w0 Map.empty
        resp_not_found, OF h1]
      C2_raises_or_decodes [of "respond (Inr resp_user)" "''/user/1''" w0 Map.empty
        resp_user, OF h2]
    by blast
qed

text \<open>
  The claim as it was stated, an error exactly when the status is not a success, fails at
  a response with a success status and an empty body (a 204): the call raises the
  decoder's \<^verbatim>\<open>SyntaxError\<close>.
\<close>

theorem C2_success_status_can_raise:
  "resp_ok resp_no_content \<and>
   fst (Fetchy_request (respond (Inr resp_no_content)) ''/user/1'' Map.empty w0)
     = Inl (Thrown SyntaxError)"
  by (simp add: Fetchy_request_result Fetchy_settle_def respond_def resp_no_content_def)

section \<open>The message of an HTTP failure\<close>

text \<open>
  Claim C10: when a call of the library file fails on a status that is not a success and
  the body decodes to a JSON object whose \<^verbatim>\<open>message\<close> is the empty string, the error is
  raised with the generic fallback string, not with the empty string.
\<close>

theorem C10_empty_message_gives_fallback:
  assumes "fetch url (Fetchy_init (controllers w) (rest_without ''timeout'' options)) = Inr r"
    and "\<not> resp_ok r"
    and "resp_json r = Inr (JObj kvs)"
    and "map_of kvs ''message'' = Some (JStr [])"
  shows "fst (Fetchy_request fetch url options w) = Inl (HttpError (JStr Fetchy_fallback) (Some r))"
  using assms by (simp add: Fetchy_request_result Fetchy_settle_def or_else_def)

theorem C10_empty_message_gives_fallback_witness:
  "respond (Inr resp_empty_message) ''/missing''
       (Fetchy_init (controllers w0) (rest_without ''timeout'' Map.empty)) = Inr resp_empty_message
   \<and> \<not> resp_ok resp_empty_message
   \<and> resp_json resp_empty_message = Inr (JObj [(''message'', JStr [])])
   \<and> map_of [(''message'', JStr [])] ''message'' = Some (JStr [])
   \<and> fst (Fetchy_request (respond (Inr resp_empty_message)) ''/missing'' Map.empty w0)
      = Inl (HttpError (JStr ''An error occurred while fetching the data.'')
             (Some resp_empty_message))"
proof -
  have h1: "respond (Inr resp_empty_message) ''/missing''
      (Fetchy_init (controllers w0) (rest_without ''timeout'' Map.empty)) = Inr resp_empty_message"
    by (simp add: respond_def)
  have h2: "\<not> resp_ok resp_empty_message" by (simp add: resp_empty_message_def)
  have h3: "resp_json resp_empty_message = Inr (JObj [(''message'', JStr [])])"
    by (simp add: resp_empty_message_def)
  have h4: "map_of [(''message'', JStr [])] ''message'' = Some (JStr [])" by simp
  show ?thesis
    using h1 h2 h3 h4
      C10_empty_message_gives_fallback [of "respond (Inr resp_empty_message)" "''/missing''" w0
        Map.empty resp_empty_message "[(''message'', JStr [])]", OF h1 h2 h3 h4]
    by (simp add: Fetchy_fallback_def)
qed




section \<open>Decoding by \<^verbatim>\<open>responseType\<close>\<close>

lemma parseResponse_json:
  "options ''responseType'' \<in> {None, Some Undefined, Some (Str ''json'')} \<Longrightarrow>
   Fetchy_rt_parseResponse r options =
     (case resp_json r of Inl e \<Rightarrow> Inl (Thrown e) | Inr j \<Rightarrow> Inr (Json j))"
  by (auto simp add: Fetchy_rt_parseResponse_def js_or_def)

lemma parseResponse_text:
  "options ''responseType'' = Some (Str ''text'') \<Longrightarrow>
   Fetchy_rt_parseResponse r options =
     (case resp_text r of Inl e \<Rightarrow> Inl (Thrown e) | Inr s \<Rightarrow> Inr (Text s))"
  by (simp add: Fetchy_rt_parseResponse_def js_or_def)

lemma parseResponse_blob:
  "options ''responseType'' = Some (Str ''blob'') \<Longrightarrow>
   Fetchy_rt_parseResponse r options =
     (case resp_blob r of Inl e \<Rightarrow> Inl (Thrown e) | Inr b \<Rightarrow> Inr (BlobBody b))"
  by (simp add: Fetchy_rt_parseResponse_def js_or_def)

lemma parseResponse_arrayBuffer:
  "options ''responseType'' = Some (Str ''arrayBuffer'') \<Longrightarrow>
   Fetchy_rt_parseResponse r options =
     (case resp_arrayBuffer r of Inl e \<Rightarrow> Inl (Thrown e) | Inr bs \<Rightarrow> Inr (ArrayBuffer bs))"
  by (simp add: Fetchy_rt_parseResponse_def js_or_def)

lemma Fetchy_rt_settle_Inr:
  "Fetchy_rt_settle options res = Inr v \<Longrightarrow>
   \<exists>r. res = Inr r \<and> resp_ok r \<and> Fetchy_rt_parseResponse r options = Inr v"
  by (cases res) (auto simp add: Fetchy_rt_settle_def split: if_splits sum.splits)

text \<open>
  Claim C4: in the variant with \<^verbatim>\<open>responseType\<close>, a call whose transport returns a response
  with a success status gives the outcome of the decoder that was asked for: the parsed
  JSON value for \<^verbatim>\<open>json\<close>, the string for \<^verbatim>\<open>text\<close>, the blob for \<^verbatim>\<open>blob\<close>, the bytes for
  \<^verbatim>\<open>arrayBuffer\<close>, and the parsed JSON value when the option is left out (an error of the
  decoder is raised as it is). Every call that returns a value has received such a
  response.
\<close>

theorem C4_result_matches_responseType:
  "(\<forall>r. fetch url (Fetchy_rt_init (controllers w) (rest_without ''timeout'' options)) = Inr r
        \<and> resp_ok r \<longrightarrow>
      (options ''responseType'' \<in> {None, Some Undefined, Some (Str ''json'')} \<longrightarrow>
         fst (Fetchy_rt_request fetch url options w)
           = (case resp_json r of Inl e \<Rightarrow> Inl (Thrown e) | Inr j \<Rightarrow> Inr (Json j)))
    \<and> (options ''responseType'' = Some (Str ''text'') \<longrightarrow>
         fst (Fetchy_rt_request fetch url options w)
           = (case resp_text r of Inl e \<Rightarrow> Inl (Thrown e) | Inr s \<Rightarrow> Inr (Text s)))
    \<and> (options ''responseType'' = Some (Str ''blob'') \<longrightarrow>
         fst (Fetchy_rt_request fetch url options w)
           = (case resp_blob r of Inl e \<Rightarrow> Inl (Thrown e) | Inr b \<Rightarrow> Inr (BlobBody b)))
    \<and> (options ''responseType'' = Some (Str ''arrayBuffer'') \<longrightarrow>
         fst (Fetchy_rt_request fetch url options w)
           = (case resp_arrayBuffer r of
                Inl e \<Rightarrow> Inl (Thrown e) | Inr bs \<Rightarrow> Inr (ArrayBuffer bs))))
   \<and> (\<forall>v. fst (Fetchy_rt_request fetch url options w) = Inr v \<longrightarrow>
        (\<exists>r. fetch url (Fetchy_rt_init (controllers w) (rest_without ''timeout'' options)) = Inr r
           \<and> resp_ok r))"
proof -
  have fwd: "\<And>r. fetch url (Fetchy_rt_init (controllers w) (rest_without ''timeout'' options)) = Inr r
      \<Longrightarrow> resp_ok r
      \<Longrightarrow> fst (Fetchy_rt_request fetch url options w) = Fetchy_rt_parseResponse r options"
    by (simp add: Fetchy_rt_request_result Fetchy_rt_settle_def)
  have bwd: "\<And>v. fst (Fetchy_rt_request fetch url options w) = Inr v \<Longrightarrow>
      \<exists>r. fetch url (Fetchy_rt_init (controllers w) (rest_without ''timeout'' options)) = Inr r
        \<and> resp_ok r"
    by (auto simp add: Fetchy_rt_request_result dest: Fetchy_rt_settle_Inr)
  show ?thesis
    using bwd
    by (auto simp add: fwd parseResponse_json parseResponse_text parseResponse_blob
        parseResponse_arrayBuffer)
qed

text \<open>The theorem at a 200 read in each of the four representations and with the option
  left out.\<close>

theorem C4_result_matches_responseType_witness:
  "respond (Inr resp_user) ''/user/1''
       (Fetchy_rt_init (controllers w0)
          (rest_without ''timeout'' [''responseType'' \<mapsto> Str ''blob''])) = Inr resp_user
   \<and> resp_ok resp_user
   \<and> [''responseType'' \<mapsto> Str ''json''] ''responseType''
        \<in> {None, Some Undefined, Some (Str ''json'')}
   \<and> fst (Fetchy_rt_request (respond (Inr resp_user)) ''/user/1''
          [''responseType'' \<mapsto> Str ''json''] w0) = Inr (Json user_json)
   \<and> fst (Fetchy_rt_request (respond (Inr resp_user)) ''/user/1''
          [''responseType'' \<mapsto> Str ''text''] w0) = Inr (Text user_text)
   \<and> fst (Fetchy_rt_request (respond (Inr resp_user)) ''/user/1''
          [''responseType'' \<mapsto> Str ''blob''] w0) = Inr (BlobBody (Blob user_bytes))
   \<and> fst (Fetchy_rt_request (respond (Inr resp_user)) ''/user/1''
          [''responseType'' \<mapsto> Str ''arrayBuffer''] w0) = Inr (ArrayBuffer user_bytes)
   \<and> (Map.empty :: jsobj) ''responseType'' \<in> {None, Some Undefined, Some (Str ''json'')}
   \<and> fst (Fetchy_rt_request (respond (Inr resp_user)) ''/user/1'' Map.empty w0)
        = Inr (Json user_json)"
proof -
  note T = C4_result_matches_responseType
    [where fetch = "respond (Inr resp_user)" and url = "''/user/1''" and w = w0]
  have f: "\<And>init. respond (Inr resp_user) ''/user/1'' init = Inr resp_user"
    by (simp add: respond_def)
  have ok: "resp_ok resp_user" by (simp add: resp_user_def)
  have j: "resp_json resp_user = Inr user_json" by (simp add: resp_user_def)
  have t: "resp_text resp_user = Inr user_text" by (simp add: resp_user_def)
  have b: "resp_blob resp_user = Inr (Blob user_bytes)" by (simp add: resp_user_def)
  have a: "resp_arrayBuffer resp_user = Inr user_bytes" by (simp add: resp_user_def)
  show ?thesis
    using ok
      T [where options = "[''responseType'' \<mapsto> Str ''json'']"]
      T [where options = "[''responseType'' \<mapsto> Str ''text'']"]
      T [where options = "[''responseType'' \<mapsto> Str ''blob'']"]
      T [where options = "[''responseType'' \<mapsto> Str ''arrayBuffer'']"]
      T [where options = "Map.empty"]
    by (simp add: f j t b a)
qed

text \<open>
  Claim C5, as amended: a call whose options carry a \<^verbatim>\<open>responseType\<close> that is not one of
  the four recognised ones issues its transport call like any other. When the value is
  truthy (a non-empty string such as \<^verbatim>\<open>"xml"\<close>) the call fails with the "Unsupported
  response type" error once the transport has returned a response with a success status;
  when the value is falsy (the empty string, \<^verbatim>\<open>null\<close>, \<^verbatim>\<open>0\<close>, \<^verbatim>\<open>false\<close>, \<^verbatim>\<open>undefined\<close>) it
  counts as left out and such a response is decoded as JSON. In both cases a response
  with another status fails with the generic HTTP error, and a failure of the transport
  passes through.
\<close>

theorem C5_unsupported_after_response:
  assumes "options ''responseType'' = Some v"
    and "v \<notin> {Str ''json'', Str ''text'', Str ''blob'', Str ''arrayBuffer''}"
  shows "(\<exists>init. fetch_calls (snd (Fetchy_rt_request fetch url options w)) = fetch_calls w @ [(url, init)]
      \<and> (\<forall>r. fetch url init = Inr r \<and> resp_ok r \<and> truthy v \<longrightarrow>
            fst (Fetchy_rt_request fetch url options w) = Inl (UnsupportedResponseType v))
      \<and> (\<forall>r. fetch url init = Inr r \<and> resp_ok r \<and> \<not> truthy v \<longrightarrow>
            fst (Fetchy_rt_request fetch url options w)
              = (case resp_json r of Inl e \<Rightarrow> Inl (Thrown e) | Inr j \<Rightarrow> Inr (Json j)))
      \<and> (\<forall>r. fetch url init = Inr r \<and> \<not> resp_ok r \<longrightarrow>
            fst (Fetchy_rt_request fetch url options w)
              = Inl (HttpError (JStr Fetchy_fallback) (Some r)))
      \<and> (\<forall>e. fetch url init = Inl e \<longrightarrow>
            fst (Fetchy_rt_request fetch url options w) = Inl (Thrown e)))"
  using assms
  by (auto simp add: Fetchy_rt_request_result Fetchy_rt_request_calls Fetchy_rt_settle_def
      Fetchy_rt_parseResponse_def js_or_def Let_def)

text \<open>The theorem at \<^verbatim>\<open>"xml"\<close> and at the empty string with a 200, and at \<^verbatim>\<open>"xml"\<close> with a
  404.\<close>

theorem C5_unsupported_after_response_witness:
  "[''responseType'' \<mapsto> Str ''xml''] ''responseType'' = Some (Str ''xml'')
   \<and> Str ''xml'' \<notin> {Str ''json'', Str ''text'', Str ''blob'', Str ''arrayBuffer''}
   \<and> truthy (Str ''xml'')
   \<and> resp_ok resp_user
   \<and> (\<exists>init. fetch_calls (snd (Fetchy_rt_request (respond (Inr resp_user)) ''/user/1''
                 [''responseType'' \<mapsto> Str ''xml''] w0)) = [(''/user/1'', init)])
   \<and> fst (Fetchy_rt_request (respond (Inr resp_user)) ''/user/1''
            [''responseType'' \<mapsto> Str ''xml''] w0) = Inl (UnsupportedResponseType (Str ''xml''))
   \<and> [''responseType'' \<mapsto> Str []] ''responseType'' = Some (Str [])
   \<and> Str [] \<notin> {Str ''json'', Str ''text'', Str ''blob'', Str ''arrayBuffer''}
   \<and> \<not> truthy (Str [])
   \<and> fst (Fetchy_rt_request (respond (Inr resp_user)) ''/user/1''
            [''responseType'' \<mapsto> Str []] w0) = Inr (Json user_json)
   \<and> \<not> resp_ok resp_not_found
   \<and> fst (Fetchy_rt_request (respond (Inr resp_not_found)) ''/missing''
            [''responseType'' \<mapsto> Str ''xml''] w0)
        = Inl (HttpError (JStr ''An error occurred while fetching the data.'')
               (Some resp_not_found))"
proof -
  have h1: "[''responseType'' \<mapsto> Str ''xml''] ''responseType'' = Some (Str ''xml'')" by simp
  have h2: "Str ''xml'' \<notin> {Str ''json'', Str ''text'', Str ''blob'', Str ''arrayBuffer''}" by simp
  have g1: "[''responseType'' \<mapsto> Str []] ''responseType'' = Some (Str [])" by simp
  have g2: "Str [] \<notin> {Str ''json'', Str ''text'', Str ''blob'', Str ''arrayBuffer''}" by simp
  have k: "resp_ok resp_user" by (simp add: resp_user_def)
  have j: "resp_json resp_user = Inr user_json" by (simp add: resp_user_def)
  have n: "\<not> resp_ok resp_not_found" by (simp add: resp_not_found_def)
  have e: "fetch_calls w0 = []" by (simp add: w0_def)
  have f: "\<And>res u init. respond res u init = res" by (simp add: respond_def)
  show ?thesis
    using h1 h2 g1 g2 k n e
      C5_unsupported_after_response [of "[''responseType'' \<mapsto> Str ''xml'']" "Str ''xml''"
        "respond (Inr resp_user)" "''/user/1''" w0, OF h1 h2]
      C5_unsupported_after_response [of "[''responseType'' \<mapsto> Str []]" "Str []"
        "respond (Inr resp_user)" "''/user/1''" w0, OF g1 g2]
      C5_unsupported_after_response [of "[''responseType'' \<mapsto> Str ''xml'']" "Str ''xml''"
        "respond (Inr resp_not_found)" "''/missing''" w0, OF h1 h2]
    by (auto simp add: f j Fetchy_fallback_def)
qed

text \<open>
  The claim as it was stated fails in two places. At \<^verbatim>\<open>responseType: "xml"\<close> the error is
  not raised without the transport call being issued: the call to \<^verbatim>\<open>/user/1\<close> is issued and
  answered before the error is raised. At \<^verbatim>\<open>responseType: ""\<close>, which is not a recognised
  value either, the call does not fail at all: it returns the body decoded as JSON.
\<close>

theorem C5_transport_called_first:
  "fst (Fetchy_rt_request (respond (Inr resp_user)) ''/user/1''
          [''responseType'' \<mapsto> Str ''xml''] w0) = Inl (UnsupportedResponseType (Str ''xml''))
   \<and> map fst (fetch_calls (snd (Fetchy_rt_request (respond (Inr resp_user)) ''/user/1''
        [''responseType'' \<mapsto> Str ''xml''] w0))) = [''/user/1'']
   \<and> Str [] \<notin> {Str ''json'', Str ''text'', Str ''blob'', Str ''arrayBuffer''}
   \<and> fst (Fetchy_rt_request (respond (Inr resp_user)) ''/user/1''
          [''responseType'' \<mapsto> Str []] w0) = Inr (Json user_json)"
  by (simp add: Fetchy_rt_request_result Fetchy_rt_request_calls Fetchy_rt_settle_def
      Fetchy_rt_parseResponse_def js_or_def Let_def respond_def resp_user_def w0_def)

section \<open>The entry points\<close>

text \<open>
  Claim C7: \<^verbatim>\<open>post\<close> and \<^verbatim>\<open>put\<close> hand the transport the result of \<^verbatim>\<open>JSON.stringify\<close> on the
  body value as the request body; \<^verbatim>\<open>get\<close> and \<^verbatim>\<open>delete\<close> attach no body of their own, the
  body of the transport call is whatever the caller's options carried.
\<close>

theorem C7_body_is_serialised:
  "(stringify body = Inr text \<longrightarrow>
       (\<exists>init. fetch_calls (snd (Fetchy_post stringify fetch url body options w))
          = fetch_calls w @ [(url, init)]
        \<and> init ''body'' = Some text))
   \<and> (stringify body = Inr text \<longrightarrow>
       (\<exists>init. fetch_calls (snd (Fetchy_put stringify fetch url body options w))
          = fetch_calls w @ [(url, init)]
        \<and> init ''body'' = Some text))
   \<and> (\<exists>init. fetch_calls (snd (Fetchy_get fetch url options w)) = fetch_calls w @ [(url, init)]
      \<and> init ''body'' = options ''body'')
   \<and> (\<exists>init. fetch_calls (snd (Fetchy_delete fetch url options w)) = fetch_calls w @ [(url, init)]
      \<and> init ''body'' = options ''body'')"
  by (simp add: Fetchy_get_def Fetchy_delete_def Fetchy_post_def Fetchy_put_def
      Fetchy_request_calls Fetchy_init_def rest_without_apply map_add_def
      split: option.splits)

theorem C7_body_is_serialised_witness:
  "stringify_B body_B = Inr (Str text_B)
   \<and> (\<exists>init. fetch_calls (snd (Fetchy_post stringify_B (respond (Inr resp_user)) ''/user'' body_B
                 Map.empty w0)) = [(''/user'', init)]
        \<and> init ''body'' = Some (Str text_B))
   \<and> (\<exists>init. fetch_calls (snd (Fetchy_put stringify_B (respond (Inr resp_user)) ''/user'' body_B
                 Map.empty w0)) = [(''/user'', init)]
        \<and> init ''body'' = Some (Str text_B))"
proof -
  have h: "stringify_B body_B = Inr (Str text_B)"
    by (simp add: stringify_B_def)
  have e: "fetch_calls w0 = []" by (simp add: w0_def)
  show ?thesis
    using h e
      C7_body_is_serialised [of stringify_B body_B "Str text_B" "respond (Inr resp_user)"
        "''/user''" Map.empty w0]
    by simp
qed

text \<open>
  Claim C9: whatever options the caller passes, also options with a \<^verbatim>\<open>method\<close> of their
  own, the transport call of \<^verbatim>\<open>get\<close> has the method GET, that of \<^verbatim>\<open>delete\<close> DELETE, that
  of \<^verbatim>\<open>post\<close> POST and that of \<^verbatim>\<open>put\<close> PUT, in the library file and in the static class
  with \<^verbatim>\<open>shouldCache\<close>. (\<^verbatim>\<open>post\<close> and \<^verbatim>\<open>put\<close> reach the transport when the body
  serialises.)
\<close>

theorem C9_entry_points_force_method:
  "(\<exists>init. fetch_calls (snd (Fetchy_get fetch url options w)) = fetch_calls w @ [(url, init)]
      \<and> init ''method'' = Some (Str ''GET''))
   \<and> (\<exists>init. fetch_calls (snd (Fetchy_delete fetch url options w)) = fetch_calls w @ [(url, init)]
      \<and> init ''method'' = Some (Str ''DELETE''))
   \<and> (stringify body = Inr text \<longrightarrow>
       (\<exists>init. fetch_calls (snd (Fetchy_post stringify fetch url body options w))
          = fetch_calls w @ [(url, init)]
        \<and> init ''method'' = Some (Str ''POST'')))
   \<and> (stringify body = Inr text \<longrightarrow>
       (\<exists>init. fetch_calls (snd (Fetchy_put stringify fetch url body options w))
          = fetch_calls w @ [(url, init)]
        \<and> init ''method'' = Some (Str ''PUT'')))
   \<and> (\<exists>init. fetch_calls (snd (Fetchy_sc_get fetch url options w)) = fetch_calls w @ [(url, init)]
      \<and> init ''method'' = Some (Str ''GET''))
   \<and> (\<exists>init. fetch_calls (snd (Fetchy_sc_delete fetch url options w)) = fetch_calls w @ [(url, init)]
      \<and> init ''method'' = Some (Str ''DELETE''))
   \<and> (stringify body = Inr text \<longrightarrow>
       (\<exists>init. fetch_calls (snd (Fetchy_sc_post stringify fetch url body options w))
          = fetch_calls w @ [(url, init)]
        \<and> init ''method'' = Some (Str ''POST'')))
   \<and> (stringify body = Inr text \<longrightarrow>
       (\<exists>init. fetch_calls (snd (Fetchy_sc_put stringify fetch url body options w))
          = fetch_calls w @ [(url, init)]
        \<and> init ''method'' = Some (Str ''PUT'')))"
  by (simp add: Fetchy_get_def Fetchy_delete_def Fetchy_post_def Fetchy_put_def
      Fetchy_sc_get_def Fetchy_sc_delete_def Fetchy_sc_post_def Fetchy_sc_put_def
      Fetchy_request_calls Fetchy_sc_request_calls Fetchy_init_def Fetchy_sc_init_def
      rest_without_apply Let_def)

text \<open>The theorem at options that ask for the method PATCH.\<close>

theorem C9_entry_points_force_method_witness:
  "stringify_B body_B = Inr (Str text_B)
   \<and> [''method'' \<mapsto> Str ''PATCH''] ''method'' = Some (Str ''PATCH'')
   \<and> (\<exists>init. fetch_calls (snd (Fetchy_post stringify_B (respond (Inr resp_user)) ''/user'' body_B
                 [''method'' \<mapsto> Str ''PATCH''] w0)) = [(''/user'', init)]
        \<and> init ''method'' = Some (Str ''POST''))
   \<and> (\<exists>init. fetch_calls (snd (Fetchy_sc_put stringify_B (respond (Inr resp_user)) ''/user'' body_B
                 [''method'' \<mapsto> Str ''PATCH''] w0)) = [(''/user'', init)]
        \<and> init ''method'' = Some (Str ''PUT''))
   \<and> (\<exists>init. fetch_calls (snd (Fetchy_get (respond (Inr resp_user)) ''/user''
                 [''method'' \<mapsto> Str ''PATCH''] w0)) = [(''/user'', init)]
        \<and> init ''method'' = Some (Str ''GET''))"
proof -
  have h: "stringify_B body_B = Inr (Str text_B)"
    by (simp add: stringify_B_def)
  have e: "fetch_calls w0 = []" by (simp add: w0_def)
  show ?thesis
    using h e
      C9_entry_points_force_method [of "respond (Inr resp_user)" "''/user''"
        "[''method'' \<mapsto> Str ''PATCH'']" w0 stringify_B body_B "Str text_B"]
    by simp
qed

section \<open>The cache directive\<close>

text \<open>
  Claim C8, as amended: in the variant with the \<^verbatim>\<open>cache\<close> option, the object given to the
  transport carries \<^verbatim>\<open>cache: "no-cache"\<close> exactly when the options say
  \<^verbatim>\<open>cache: "no-cache"\<close>, and no \<^verbatim>\<open>cache\<close> otherwise. In the variant with \<^verbatim>\<open>shouldCache\<close>,
  for options that carry no \<^verbatim>\<open>cache\<close> of their own, the object carries
  \<^verbatim>\<open>cache: "no-cache"\<close> when \<^verbatim>\<open>shouldCache\<close> is \<^verbatim>\<open>false\<close> and no \<^verbatim>\<open>cache\<close> when
  \<^verbatim>\<open>shouldCache\<close> is absent, \<^verbatim>\<open>undefined\<close> or \<^verbatim>\<open>true\<close>; a \<^verbatim>\<open>cache\<close> of the caller's own is
  passed through as it is.
\<close>

theorem C8_cache_directive:
  "(\<exists>init. fetch_calls (snd (fetchy_cache_request fetch url options w)) = fetch_calls w @ [(url, init)]
      \<and> init ''cache'' = (if options ''cache'' = Some (Str ''no-cache'') then Some (Str ''no-cache'') else None))
   \<and> (\<exists>init. fetch_calls (snd (Fetchy_sc_request fetch url options w)) = fetch_calls w @ [(url, init)]
      \<and> (options ''cache'' = None \<and> options ''shouldCache'' = Some (Bool False)
            \<longrightarrow> init ''cache'' = Some (Str ''no-cache''))
      \<and> (options ''cache'' = None \<and> options ''shouldCache'' \<in> {None, Some Undefined, Some (Bool True)}
            \<longrightarrow> init ''cache'' = None)
      \<and> (\<forall>c. options ''cache'' = Some c \<longrightarrow> init ''cache'' = Some c))"
  by (auto simp add: fetchy_cache_request_calls Fetchy_sc_request_calls fetchy_cache_init_def
      Fetchy_sc_init_def rest_without_apply map_add_def Let_def with_default_def
      split: option.splits)

theorem C8_cache_directive_witness:
  "[''shouldCache'' \<mapsto> Bool False] ''cache'' = None
   \<and> [''shouldCache'' \<mapsto> Bool False] ''shouldCache'' = Some (Bool False)
   \<and> (\<exists>init. fetch_calls (snd (Fetchy_sc_request (respond (Inr resp_user)) ''/user/1''
                 [''shouldCache'' \<mapsto> Bool False] w0)) = [(''/user/1'', init)]
        \<and> init ''cache'' = Some (Str ''no-cache''))
   \<and> (Map.empty :: jsobj) ''cache'' = None
   \<and> (Map.empty :: jsobj) ''shouldCache'' \<in> {None, Some Undefined, Some (Bool True)}
   \<and> (\<exists>init. fetch_calls (snd (Fetchy_sc_request (respond (Inr resp_user)) ''/user/1''
                 Map.empty w0)) = [(''/user/1'', init)]
        \<and> init ''cache'' = None)
   \<and> (\<exists>init. fetch_calls (snd (fetchy_cache_request (respond (Inr resp_user)) ''/user/1''
                 [''cache'' \<mapsto> Str ''no-cache''] w0)) = [(''/user/1'', init)]
        \<and> init ''cache'' = Some (Str ''no-cache''))"
proof -
  have e: "fetch_calls w0 = []" by (simp add: w0_def)
  have a: "[''shouldCache'' \<mapsto> Bool False] ''cache'' = None
      \<and> [''shouldCache'' \<mapsto> Bool False] ''shouldCache'' = Some (Bool False)" by simp
  have b: "(Map.empty :: jsobj) ''cache'' = None
      \<and> (Map.empty :: jsobj) ''shouldCache'' \<in> {None, Some Undefined, Some (Bool True)}" by simp
  show ?thesis
    using e a b
      C8_cache_directive [of "respond (Inr resp_user)" "''/user/1''"
        "[''shouldCache'' \<mapsto> Bool False]" w0]
      C8_cache_directive [of "respond (Inr resp_user)" "''/user/1''" Map.empty w0]
      C8_cache_directive [of "respond (Inr resp_user)" "''/user/1''"
        "[''cache'' \<mapsto> Str ''no-cache'']" w0]
    by simp
qed

text \<open>
  The claim as it was stated, \<^verbatim>\<open>shouldCache: false\<close> always puts the directive into the
  object, fails at \<^verbatim>\<open>{ shouldCache: false, cache: "force-cache" }\<close>: the spread of the
  caller's options comes after the directive and replaces it.
\<close>

theorem C8_caller_cache_wins:
  "[''shouldCache'' \<mapsto> Bool False, ''cache'' \<mapsto> Str ''force-cache''] ''shouldCache'' = Some (Bool False)
   \<and> (\<exists>init. fetch_calls (snd (Fetchy_sc_request (respond (Inr resp_user)) ''/user/1''
        [''shouldCache'' \<mapsto> Bool False, ''cache'' \<mapsto> Str ''force-cache''] w0)) = [(''/user/1'', init)]
      \<and> init ''cache'' = Some (Str ''force-cache'')
      \<and> init ''cache'' \<noteq> Some (Str ''no-cache''))"
  by (simp add: Fetchy_sc_request_calls Fetchy_sc_init_def rest_without_apply w0_def Let_def
      with_default_def)

section \<open>The timeout\<close>

text \<open>\<open>Fetchy_armed\<close> is the state in which the two variants with a timeout call the
  transport.\<close>

lemma Fetchy_request_armed:
  "Fetchy_request fetch url options w =
     (let (controller, timeoutId, w2) = Fetchy_armed options w;
          (res, w3) = call_fetch fetch url
             (Fetchy_init controller (rest_without ''timeout'' options)) w2
      in (Fetchy_settle res, clearTimeout timeoutId w3))"
  by (simp add: Fetchy_request_def Fetchy_armed_def Let_def split_def)

lemma Fetchy_rt_request_armed:
  "Fetchy_rt_request fetch url options w =
     (let (controller, timeoutId, w2) = Fetchy_armed options w;
          (res, w3) = call_fetch fetch url
             (Fetchy_rt_init controller (rest_without ''timeout'' options)) w2
      in (Fetchy_rt_settle options res, clearTimeout timeoutId w3))"
  by (simp add: Fetchy_rt_request_def Fetchy_armed_def Let_def split_def)

text \<open>The timer that is armed aborts the controller the call has just created, after the
  caller's \<^verbatim>\<open>timeout\<close> or after 5000.\<close>

lemma Fetchy_armed_timer:
  "Fetchy_armed options w =
     (controllers w, length (timers w),
      w\<lparr>controllers := Suc (controllers w),
        timers := timers w @ [Armed (controllers w) (with_default (options ''timeout'') (Num 5000))]\<rparr>)"
  by (simp add: Fetchy_armed_def Let_def new_AbortController_def setTimeout_def)

lemma Fetchy_rt_init_signal:
  "Fetchy_rt_init c fetchOptions ''signal'' =
     (case fetchOptions ''signal'' of None \<Rightarrow> Some (Signal c) | Some s \<Rightarrow> Some s)"
  by (simp add: Fetchy_rt_init_def map_add_def split: option.splits)

text \<open>
  Claim C6: a call that does not complete within its timeout window is aborted and fails
  with an abort-style error, and the timer is disarmed on every outcome path. The timer is
  indeed cleared on every path (\<open>Fetchy_request_timers\<close>, \<open>Fetchy_rt_request_timers\<close>), but
  the abort does not reach every call. For the options
  \<^verbatim>\<open>{ timeout: 10, signal: s }\<close>, with \<^verbatim>\<open>s\<close> the signal of the caller's own controller 0, the
  call creates controller 1 and arms a timer that aborts controller 1 after 10, and then
  hands the transport the signal of controller 0: the spread of the caller's options comes
  after \<^verbatim>\<open>signal: controller.signal\<close> and replaces it. When the timer fires, nothing the
  transport listens to is aborted, in the library file and in the variant with
  \<^verbatim>\<open>responseType\<close> alike.
\<close>

theorem C6_caller_signal_disconnects_timeout:
  "Fetchy_armed [''timeout'' \<mapsto> Num 10, ''signal'' \<mapsto> Signal 0] w_caller
     = (1, 0, \<lparr>fetch_calls = [], controllers = 2, timers = [Armed 1 (Num 10)]\<rparr>)
   \<and> (\<exists>init. fetch_calls (snd (Fetchy_request fetch url
                 [''timeout'' \<mapsto> Num 10, ''signal'' \<mapsto> Signal 0] w_caller)) = [(url, init)]
        \<and> init ''signal'' = Some (Signal 0)
        \<and> init ''signal'' \<noteq> Some (Signal 1))
   \<and> timers (snd (Fetchy_request fetch url
                 [''timeout'' \<mapsto> Num 10, ''signal'' \<mapsto> Signal 0] w_caller)) = [Cleared]
   \<and> (\<exists>init. fetch_calls (snd (Fetchy_rt_request fetch url
                 [''timeout'' \<mapsto> Num 10, ''signal'' \<mapsto> Signal 0] w_caller)) = [(url, init)]
        \<and> init ''signal'' = Some (Signal 0)
        \<and> init ''signal'' \<noteq> Some (Signal 1))
   \<and> timers (snd (Fetchy_rt_request fetch url
                 [''timeout'' \<mapsto> Num 10, ''signal'' \<mapsto> Signal 0] w_caller)) = [Cleared]"
  by (simp add: Fetchy_armed_def with_default_def new_AbortController_def setTimeout_def
      w_caller_def Fetchy_request_calls Fetchy_rt_request_calls Fetchy_init_def
      Fetchy_rt_init_def rest_without_apply Fetchy_request_timers Fetchy_rt_request_timers)

end
